theory Spec2Isabelle
  imports Main "HOL-Library.Sublist" "HOL-Library.AList"
begin

section \<open>Python strings\<close>

text \<open>
  A Python \<open>str\<close> is a sequence of Unicode code points; slicing, \<open>len\<close>,
  \<open>startswith\<close> and \<open>in\<close> all count code points. A string is therefore a list
  of code points (natural numbers), so that the marker \<open>U+2022 U+0020\<close> (bullet, space) of
  \<open>add_to_knowledge\<close> is a two-element string. \<open>ustr\<close> turns an ASCII literal into
  such a string.
\<close>

type_synonym ustring = "nat list"

definition ustr :: "string \<Rightarrow> ustring" where
  "ustr s = map of_char s"

text \<open>\<open>s.split('\n')\<close>: the pieces between separators; never an empty list.\<close>

fun split_on :: "nat \<Rightarrow> ustring \<Rightarrow> ustring list" where
  "split_on d [] = [[]]"
| "split_on d (c # cs) =
     (if c = d then [] # split_on d cs
      else (case split_on d cs of
              [] \<Rightarrow> [[c]]
            | l # ls \<Rightarrow> (c # l) # ls))"

text \<open>\<open>sep.join(xs)\<close>.\<close>

fun join :: "ustring \<Rightarrow> ustring list \<Rightarrow> ustring" where
  "join sep [] = []"
| "join sep [x] = x"
| "join sep (x # y # ys) = x @ sep @ join sep (y # ys)"

text \<open>
  \<open>str.isspace\<close> of one code point: the code points CPython's
  \<open>_PyUnicode_IsWhitespace\<close> accepts.
\<close>

definition is_space :: "nat \<Rightarrow> bool" where
  "is_space c \<longleftrightarrow>
     (9 \<le> c \<and> c \<le> 13) \<or> (28 \<le> c \<and> c \<le> 32) \<or> c = 133 \<or> c = 160 \<or> c = 5760 \<or>
     (8192 \<le> c \<and> c \<le> 8202) \<or> c = 8232 \<or> c = 8233 \<or> c = 8239 \<or> c = 8287 \<or> c = 12288"

text \<open>\<open>s.strip()\<close>: leading and trailing whitespace removed.\<close>

definition strip :: "ustring \<Rightarrow> ustring" where
  "strip s = rev (dropWhile is_space (rev (dropWhile is_space s)))"

text \<open>
  \<open>s.lower()\<close>. The letters \<open>A\<close> to \<open>Z\<close> are mapped to \<open>a\<close> to \<open>z\<close>; every
  other code point is kept. (Python also lowers cased letters beyond ASCII; the markers
  and the scenarios of the specification are ASCII.)
\<close>

definition lower_cp :: "nat \<Rightarrow> nat" where
  "lower_cp c = (if 65 \<le> c \<and> c \<le> 90 then c + 32 else c)"

definition lower :: "ustring \<Rightarrow> ustring" where
  "lower s = map lower_cp s"

text \<open>\<open>s.startswith(p)\<close> and \<open>s.startswith((p1, p2, ...))\<close>.\<close>

definition startswith :: "ustring \<Rightarrow> ustring \<Rightarrow> bool" where
  "startswith s p = prefix p s"

definition startswith_any :: "ustring \<Rightarrow> ustring list \<Rightarrow> bool" where
  "startswith_any s ps = list_ex (startswith s) ps"

text \<open>\<open>sub in s\<close> on strings: \<open>sub\<close> occurs in \<open>s\<close> at some position.\<close>

fun contains :: "ustring \<Rightarrow> ustring \<Rightarrow> bool" where
  "contains [] sub = (sub = [])"
| "contains (c # cs) sub = (prefix sub (c # cs) \<or> contains cs sub)"

section \<open>Python values read from JSON\<close>

text \<open>
  What \<open>response.json()\<close> can return: \<open>None\<close>, a bool, an int, a float (kept as
  its literal), a str, a list or a dict with string keys.
\<close>

datatype json =
  JNull
| JBool bool
| JInt int
| JFloat ustring
| JStr ustring
| JArr "json list"
| JObj "(ustring \<times> json) list"

section \<open>The knowledge document\<close>

text \<open>
  The entry written under a topic by \<open>add_to_knowledge\<close>:
  \<open>{"timestamp", "instructions", "usage_count", "source_conversation"}\<close>.
\<close>

record InstructionEntry =
  timestamp :: ustring
  instructions :: ustring
  usage_count :: int
  source_conversation :: int

text \<open>An element of \<open>conversation_history\<close>: \<open>{"role": ..., "content": ...}\<close>.\<close>

record message =
  role :: ustring
  content :: json

text \<open>
  The two shapes appended to \<open>conversations\<close>: by \<open>add_to_knowledge\<close>
  (timestamp, query, response, context) and by \<open>save_conversation\<close>
  (timestamp, history, context).
\<close>

datatype ConversationRecord =
  ShortForm ustring ustring ustring "ustring list"
| BatchForm ustring "message list" "ustring list"

text \<open>
  The document. \<open>core_instructions\<close> is a Python dict: an association list with distinct
  keys in insertion order; assigning to an existing key keeps its position
  (\<open>AList.update\<close>). \<open>summary\<close> and \<open>api_interactions\<close> are only ever written as
  empty lists.
\<close>

record KnowledgeDocument =
  summary :: "ustring list"
  core_instructions :: "(ustring \<times> InstructionEntry) list"
  api_interactions :: "ustring list"
  conversations :: "ConversationRecord list"

definition empty_document :: KnowledgeDocument where
  "empty_document =
     \<lparr>summary = [], core_instructions = [], api_interactions = [], conversations = []\<rparr>"

section \<open>Extraction\<close>

text \<open>The tuple of markers passed to \<open>startswith\<close>; the last one is bullet, space.\<close>

definition markers :: "ustring list" where
  "markers = [ustr ''1.'', ustr ''2.'', ustr ''3.'', ustr ''4.'', ustr ''5.'',
              ustr ''- '', ustr ''* '', [8226, 32]]"

text \<open>The condition of the scanning loop of \<open>add_to_knowledge\<close>.\<close>

definition is_core_line :: "ustring \<Rightarrow> bool" where
  "is_core_line line \<longleftrightarrow>
     startswith_any (strip line) markers \<or>
     contains (lower line) (ustr ''key point'') \<or>
     contains (lower line) (ustr ''important:'')"

text \<open>
  The scanning loop: a matching line is appended stripped, and the loop is left as soon
  as three core points are collected.
\<close>

fun scan_lines :: "ustring list \<Rightarrow> ustring list \<Rightarrow> ustring list" where
  "scan_lines [] core_points = core_points"
| "scan_lines (line # lines) core_points =
     (if is_core_line line then
        (let core_points' = core_points @ [strip line]
         in if length core_points' \<ge> 3 then core_points'
            else scan_lines lines core_points')
      else scan_lines lines core_points)"

definition extract_core_points :: "ustring \<Rightarrow> ustring list" where
  "extract_core_points response = scan_lines (split_on 10 response) []"

text \<open>\<open>query[:50] + ("..." if len(query) > 50 else "")\<close>.\<close>

definition topic_of :: "ustring \<Rightarrow> ustring" where
  "topic_of query = take 50 query @ (if length query > 50 then ustr ''...'' else [])"

text \<open>
  The in-memory part of \<open>add_to_knowledge\<close>, between \<open>load_knowledge\<close> and
  \<open>save_knowledge\<close>. \<open>now1\<close> and \<open>now2\<close> are the two readings of
  \<open>datetime.now().isoformat()\<close>; \<open>ctx\<close> is \<open>self.current_context\<close>.
\<close>

definition extract_and_store ::
  "ustring \<Rightarrow> ustring \<Rightarrow> ustring list \<Rightarrow> ustring \<Rightarrow> ustring \<Rightarrow>
   KnowledgeDocument \<Rightarrow> KnowledgeDocument" where
  "extract_and_store now1 now2 ctx query response knowledge =
     (let conversation = ShortForm now1 (take 500 query) (take 1000 response) ctx;
          knowledge1 = knowledge\<lparr>conversations := conversations knowledge @ [conversation]\<rparr>;
          core_points = extract_core_points response
      in if core_points \<noteq> [] then
           knowledge1\<lparr>core_instructions :=
             AList.update (topic_of query)
               \<lparr>timestamp = now2,
                instructions = join [10] core_points,
                usage_count = 1,
                source_conversation = int (length (conversations knowledge1)) - 1\<rparr>
               (core_instructions knowledge1)\<rparr>
         else knowledge1)"

section \<open>Storage\<close>

text \<open>
  The file \<open>.knowledge/knowledge_base.json\<close> as \<open>load_knowledge\<close> sees it: absent,
  present but rejected by \<open>json.load\<close>, or the JSON text of a document.
\<close>

datatype store_file = Missing | Unparseable | Holds KnowledgeDocument

text \<open>\<open>save_knowledge\<close> overwrites the file with \<open>json.dump(data)\<close>.\<close>

definition save_knowledge :: "KnowledgeDocument \<Rightarrow> store_file \<Rightarrow> store_file" where
  "save_knowledge data fs = Holds data"

text \<open>
  \<open>load_knowledge\<close>: any exception of \<open>open\<close> or \<open>json.load\<close> is caught by the bare
  \<open>except\<close> and the default document is returned.
\<close>

definition load_knowledge :: "store_file \<Rightarrow> KnowledgeDocument" where
  "load_knowledge fs =
     (case fs of
        Missing \<Rightarrow> empty_document
      | Unparseable \<Rightarrow> empty_document
      | Holds data \<Rightarrow> data)"

definition add_to_knowledge ::
  "ustring \<Rightarrow> ustring \<Rightarrow> ustring list \<Rightarrow> ustring \<Rightarrow> ustring \<Rightarrow> store_file \<Rightarrow> store_file" where
  "add_to_knowledge now1 now2 ctx query response fs =
     save_knowledge (extract_and_store now1 now2 ctx query response (load_knowledge fs)) fs"

text \<open>
  \<open>setup_directories\<close>: the empty skeleton is written when the file does not exist.
\<close>

definition setup_directories :: "store_file \<Rightarrow> store_file" where
  "setup_directories fs =
     (case fs of Missing \<Rightarrow> save_knowledge empty_document fs | _ \<Rightarrow> fs)"

section \<open>Search\<close>

text \<open>A result of \<open>search_knowledge\<close>: \<open>{"type", "topic", "content"}\<close>.\<close>

record search_result =
  result_type :: ustring
  result_topic :: ustring
  result_content :: InstructionEntry

definition make_result :: "ustring \<times> InstructionEntry \<Rightarrow> search_result" where
  "make_result item =
     \<lparr>result_type = ustr ''core_instructions'', result_topic = fst item,
      result_content = snd item\<rparr>"

text \<open>The loop over \<open>knowledge["core_instructions"].items()\<close>, appending to \<open>results\<close>.\<close>

fun search_loop ::
  "ustring \<Rightarrow> (ustring \<times> InstructionEntry) list \<Rightarrow> search_result list \<Rightarrow> search_result list" where
  "search_loop query_lower [] results = results"
| "search_loop query_lower ((topic, instr) # items) results =
     (if contains (lower topic) query_lower \<or> contains (lower (instructions instr)) query_lower
      then search_loop query_lower items (results @ [make_result (topic, instr)])
      else search_loop query_lower items results)"

definition search_knowledge :: "store_file \<Rightarrow> ustring \<Rightarrow> search_result list" where
  "search_knowledge fs query =
     (let knowledge = load_knowledge fs;
          query_lower = lower query
      in search_loop query_lower (core_instructions knowledge) [])"

section \<open>The completion client\<close>

text \<open>The exception classes that occur, \<open>RequestException\<close> with its \<open>str(e)\<close>.\<close>

datatype exn =
  RequestException ustring
| JSONDecodeError
| KeyError
| IndexError
| TypeError
| AttributeError
| OtherException

text \<open>
  What \<open>requests.post\<close>, \<open>raise_for_status\<close> and \<open>response.json()\<close> do for one
  request: raise, or give the decoded body.
\<close>

datatype http_outcome = Raises exn | Body json

text \<open>\<open>v[key]\<close> with a string key.\<close>

fun subscript_str :: "json \<Rightarrow> ustring \<Rightarrow> exn + json" where
  "subscript_str (JObj kvs) key =
     (case map_of kvs key of None \<Rightarrow> Inl KeyError | Some v \<Rightarrow> Inr v)"
| "subscript_str _ key = Inl TypeError"

text \<open>\<open>v[0]\<close>. The keys of a decoded JSON object are strings, so \<open>0\<close> is never a key.\<close>

fun subscript_0 :: "json \<Rightarrow> exn + json" where
  "subscript_0 (JArr []) = Inl IndexError"
| "subscript_0 (JArr (x # xs)) = Inr x"
| "subscript_0 (JStr []) = Inl IndexError"
| "subscript_0 (JStr (c # cs)) = Inr (JStr [c])"
| "subscript_0 (JObj kvs) = Inl KeyError"
| "subscript_0 _ = Inl TypeError"

text \<open>\<open>result["choices"][0]["message"]["content"]\<close>.\<close>

definition content_of :: "json \<Rightarrow> exn + json" where
  "content_of result =
     (case subscript_str result (ustr ''choices'') of
        Inl e \<Rightarrow> Inl e
      | Inr choices \<Rightarrow>
          (case subscript_0 choices of
             Inl e \<Rightarrow> Inl e
           | Inr choice \<Rightarrow>
               (case subscript_str choice (ustr ''message'') of
                  Inl e \<Rightarrow> Inl e
                | Inr msg \<Rightarrow> subscript_str msg (ustr ''content''))))"

text \<open>
  \<open>DeepSeekAPI.query\<close>: the body of the \<open>try\<close>, then the two \<open>except\<close> clauses.
  Any other exception leaves the method.
\<close>

definition api_query :: "http_outcome \<Rightarrow> exn + json" where
  "api_query outcome =
     (case (case outcome of Raises e \<Rightarrow> Inl e | Body result \<Rightarrow> content_of result) of
        Inl (RequestException msg) \<Rightarrow> Inr (JStr (ustr ''API Error: '' @ msg))
      | Inl KeyError \<Rightarrow> Inr (JStr (ustr ''Error: Invalid API response format''))
      | Inl JSONDecodeError \<Rightarrow> Inr (JStr (ustr ''Error: Invalid API response format''))
      | Inl e \<Rightarrow> Inl e
      | Inr v \<Rightarrow> Inr v)"

section \<open>The session and the query pipeline\<close>

text \<open>
  The fields of \<open>InteractiveKnowledgeCLI\<close> that the pipeline uses; \<open>deepseek\<close> is the
  client object (its key), \<open>None\<close> when no key is configured.
\<close>

record session =
  conversation_history :: "message list"
  current_context :: "ustring list"
  deepseek :: "ustring option"

text \<open>\<open>xs[-n:]\<close>.\<close>

definition last_n :: "nat \<Rightarrow> 'a list \<Rightarrow> 'a list" where
  "last_n n xs = drop (length xs - n) xs"

text \<open>Step 1 of \<open>handle_user_query\<close>: the context string.\<close>

definition format_result :: "search_result \<Rightarrow> ustring" where
  "format_result r =
     result_topic r @ ustr '': '' @ take 200 (instructions (result_content r))"

definition build_context :: "session \<Rightarrow> store_file \<Rightarrow> ustring \<Rightarrow> ustring" where
  "build_context st fs query =
     (if current_context st \<noteq> [] then join [10] (last_n 3 (current_context st))
      else (let results = search_knowledge fs query
            in if results \<noteq> [] then join [10] (map format_result (take 2 results))
               else []))"

text \<open>Step 2: the prompt, built only when a client is configured.\<close>

definition build_prompt :: "ustring \<Rightarrow> ustring \<Rightarrow> ustring" where
  "build_prompt context query =
     (if context \<noteq> [] then
        ustr ''Context from previous knowledge:'' @ [10] @ context @ [10, 10] @
        ustr ''Current query: '' @ query @ [10, 10] @
        ustr ''Please provide a comprehensive response as a senior developer.''
      else
        ustr ''Query: '' @ query @ [10, 10] @
        ustr ''Please provide a comprehensive response as a senior developer.'')"

text \<open>What \<open>handle_user_query\<close> returns.\<close>

datatype reply =
  Response json
| ApiError exn
| NoApiKey

text \<open>
  \<open>f"Assistant: {response[:200]}..."\<close>. A str or a list can be sliced, a list is then
  formatted by \<open>py_str\<close> (Python's \<open>str\<close> of a value, a parameter); every other value
  raises.
\<close>

definition assistant_line :: "(json \<Rightarrow> ustring) \<Rightarrow> json \<Rightarrow> exn + ustring" where
  "assistant_line py_str response =
     (case response of
        JStr s \<Rightarrow> Inr (ustr ''Assistant: '' @ take 200 s @ ustr ''...'')
      | JArr xs \<Rightarrow> Inr (ustr ''Assistant: '' @ py_str (JArr (take 200 xs)) @ ustr ''...'')
      | _ \<Rightarrow> Inl TypeError)"

text \<open>
  Steps 3 to 5 of \<open>handle_user_query\<close>, inside its \<open>try\<close>. \<open>outcome\<close> is what the
  network does with the prompt, \<open>now1\<close> and \<open>now2\<close> are the clock readings of
  \<open>add_to_knowledge\<close>. The state reached when an exception is raised is the state at
  that point: the \<open>except\<close> clause only builds the returned message.
\<close>

definition handle_user_query ::
  "(json \<Rightarrow> ustring) \<Rightarrow> ustring \<Rightarrow> ustring \<Rightarrow> (ustring \<Rightarrow> http_outcome) \<Rightarrow> ustring \<Rightarrow>
   session \<times> store_file \<Rightarrow> reply \<times> session \<times> store_file" where
  "handle_user_query py_str now1 now2 post query w =
     (let st = fst w; fs = snd w;
          context = build_context st fs query
      in if deepseek st \<noteq> None then
           (let prompt = build_prompt context query
            in case api_query (post prompt) of
                 Inl e \<Rightarrow> (ApiError e, st, fs)
               | Inr response \<Rightarrow>
                   (let st1 = st\<lparr>conversation_history := conversation_history st @
                                  [\<lparr>role = ustr ''user'', content = JStr query\<rparr>,
                                   \<lparr>role = ustr ''assistant'', content = response\<rparr>]\<rparr>;
                        st2 = (if length (current_context st1) > 6
                               then st1\<lparr>current_context := last_n 6 (current_context st1)\<rparr>
                               else st1);
                        st3 = st2\<lparr>current_context := current_context st2 @
                                  [ustr ''User: '' @ take 100 query @ ustr ''...'']\<rparr>
                    in case assistant_line py_str response of
                         Inl e \<Rightarrow> (ApiError e, st3, fs)
                       | Inr line \<Rightarrow>
                           (let st4 = st3\<lparr>current_context := current_context st3 @ [line]\<rparr>
                            in case response of
                                 JStr r \<Rightarrow>
                                   (Response response, st4,
                                    add_to_knowledge now1 now2 (current_context st4) query r fs)
                               | _ \<Rightarrow> (ApiError AttributeError, st4, fs))))
         else (NoApiKey, st, fs))"

text \<open>\<open>save_conversation\<close>, with the clock reading \<open>now\<close>.\<close>

definition save_conversation :: "ustring \<Rightarrow> session \<Rightarrow> store_file \<Rightarrow> store_file" where
  "save_conversation now st fs =
     (let knowledge = load_knowledge fs
      in if conversation_history st \<noteq> [] then
           save_knowledge
             (knowledge\<lparr>conversations := conversations knowledge @
                [BatchForm now (conversation_history st) (current_context st)]\<rparr>) fs
         else fs)"

text \<open>The \<open>/clear\<close> command.\<close>

definition clear :: "session \<Rightarrow> session" where
  "clear st = st\<lparr>conversation_history := [], current_context := []\<rparr>"

section \<open>A process run\<close>

text \<open>
  The session built by \<open>__init__\<close> and \<open>load_api_key\<close>: empty history and context,
  a client when a key was found.
\<close>

definition initial_session :: "ustring option \<Rightarrow> session" where
  "initial_session key = \<lparr>conversation_history = [], current_context = [], deepseek = key\<rparr>"

text \<open>
  The operations of the core that a run is made of: \<open>handle_user_query\<close> (with the
  clock readings, the behaviour of the network and the query), \<open>save_conversation\<close>
  (with its clock reading), \<open>/clear\<close>, \<open>search_knowledge\<close> and
  \<open>setup_directories\<close>.
\<close>

datatype operation =
  Query ustring ustring "ustring \<Rightarrow> http_outcome" ustring
| SaveConversation ustring
| Clear
| Search ustring
| SetupDirectories

fun apply_operation ::
  "(json \<Rightarrow> ustring) \<Rightarrow> operation \<Rightarrow> session \<times> store_file \<Rightarrow> session \<times> store_file" where
  "apply_operation py_str (Query now1 now2 post query) w =
     snd (handle_user_query py_str now1 now2 post query w)"
| "apply_operation py_str (SaveConversation now) w = (fst w, save_conversation now (fst w) (snd w))"
| "apply_operation py_str Clear w = (clear (fst w), snd w)"
| "apply_operation py_str (Search query) w = w"
| "apply_operation py_str SetupDirectories w = (fst w, setup_directories (snd w))"

fun run ::
  "(json \<Rightarrow> ustring) \<Rightarrow> operation list \<Rightarrow> session \<times> store_file \<Rightarrow> session \<times> store_file" where
  "run py_str [] w = w"
| "run py_str (op # ops) w = run py_str ops (apply_operation py_str op w)"

text \<open>
  The three facts that claim C8 states of a store before and after: the conversations
  before are a prefix of those after, no key of \<open>core_instructions\<close> is lost, and usage
  counts that were all 1 are all 1.
\<close>

definition store_grows :: "store_file \<Rightarrow> store_file \<Rightarrow> bool" where
  "store_grows fs fs' \<longleftrightarrow>
     prefix (conversations (load_knowledge fs)) (conversations (load_knowledge fs')) \<and>
     fst ` set (core_instructions (load_knowledge fs))
       \<subseteq> fst ` set (core_instructions (load_knowledge fs')) \<and>
     ((\<forall>e \<in> snd ` set (core_instructions (load_knowledge fs)). usage_count e = 1) \<longrightarrow>
      (\<forall>e \<in> snd ` set (core_instructions (load_knowledge fs')). usage_count e = 1))"

section \<open>Notions of the specification\<close>

text \<open>
  "The query is a case-insensitive substring of the text", in the words of the
  specification: the lower-cased query occurs somewhere in the lower-cased text.
\<close>

definition ci_substring :: "ustring \<Rightarrow> ustring \<Rightarrow> bool" where
  "ci_substring q s \<longleftrightarrow> (\<exists>pre suf. lower s = pre @ lower q @ suf)"

section \<open>Scenario data\<close>

text \<open>A response of three numbered lines, each indented by two spaces.\<close>

definition indented_response :: ustring where
  "indented_response = ustr ''  1. a'' @ [10] @ ustr ''  2. b'' @ [10] @ ustr ''  3. c''"

text \<open>
  The store of the search scenario: one topic \<open>database indexing\<close> whose instructions
  mention \<open>B-tree\<close>.
\<close>

definition btree_entry :: InstructionEntry where
  "btree_entry =
     \<lparr>timestamp = ustr ''2024-01-01T00:00:00'', instructions = ustr ''Use a B-tree index'',
      usage_count = 1, source_conversation = 0\<rparr>"

definition btree_store :: store_file where
  "btree_store =
     Holds \<lparr>summary = [], core_instructions = [(ustr ''database indexing'', btree_entry)],
            api_interactions = [],
            conversations = [ShortForm (ustr ''2024-01-01T00:00:00'') (ustr ''indexes?'')
                               (ustr ''- Use a B-tree index'') []]\<rparr>"

text \<open>
  A body of the expected shape with the given content, and a network that answers every
  prompt with it.
\<close>

definition ok_body :: "ustring \<Rightarrow> json" where
  "ok_body text =
     JObj [(ustr ''choices'',
            JArr [JObj [(ustr ''message'', JObj [(ustr ''content'', JStr text)])]])]"

definition answers :: "ustring \<Rightarrow> ustring \<Rightarrow> http_outcome" where
  "answers text prompt = Body (ok_body text)"

text \<open>One successful exchange: a query and the text the network answers with.\<close>

definition exchange :: "ustring \<times> ustring \<Rightarrow> operation" where
  "exchange qr = Query [] [] (answers (snd qr)) (fst qr)"

text \<open>A short run: set up, one answered query, a search, a save, a clear.\<close>

definition session_ops :: "operation list" where
  "session_ops =
     [SetupDirectories,
      Query (ustr ''t1'') (ustr ''t2'') (answers indented_response) (ustr ''q''),
      Search (ustr ''q''),
      SaveConversation (ustr ''t3''),
      Clear]"

text \<open>A rolling context holding one exchange.\<close>

definition greeting_context :: "ustring list" where
  "greeting_context = [ustr ''User: hi...'', ustr ''Assistant: hello...'']"


section \<open>String lemmas\<close>

lemma contains_iff_sublist: "contains s sub \<longleftrightarrow> sublist sub s"
  by (induction s) (auto simp: sublist_Cons_right)

lemma contains_Nil [simp]: "contains s []"
  by (induction s) auto

lemma split_on_not_Nil [simp]: "split_on d s \<noteq> []"
  by (induction s) (auto split: list.splits)

lemma scan_lines_take:
  "length acc < 3 \<Longrightarrow>
   scan_lines lines acc = take 3 (acc @ map strip (filter is_core_line lines))"
proof (induction lines arbitrary: acc)
  case Nil
  then show ?case by simp
next
  case (Cons line lines)
  show ?case
  proof (cases "is_core_line line")
    case False
    with Cons show ?thesis by simp
  next
    case True
    show ?thesis
    proof (cases "length acc = 2")
      case two: True
      with True show ?thesis by simp
    next
      case False
      with Cons.prems have short: "length (acc @ [strip line]) < 3" by simp
      from False Cons.prems True
      have "scan_lines (line # lines) acc = scan_lines lines (acc @ [strip line])"
        by (simp add: Let_def)
      also have "\<dots> = take 3 ((acc @ [strip line]) @ map strip (filter is_core_line lines))"
        by (rule Cons.IH [OF short])
      finally show ?thesis using True by simp
    qed
  qed
qed

lemma extract_core_points_eq:
  "extract_core_points response =
     take 3 (map strip (filter is_core_line (split_on 10 response)))"
  by (simp add: extract_core_points_def scan_lines_take)

lemma lower_append: "lower (a @ b) = lower a @ lower b"
  by (simp add: lower_def)

lemma sublist_lower: "sublist a s \<Longrightarrow> sublist (lower a) (lower s)"
  by (metis sublist_def lower_append)

lemma ci_substring_contains: "ci_substring q s \<longleftrightarrow> contains (lower s) (lower q)"
  by (simp add: ci_substring_def contains_iff_sublist sublist_def)

lemma length_update:
  "length (AList.update k v al) = (if k \<in> fst ` set al then length al else length al + 1)"
  by (induction al) auto

lemmas core_line_simps =
  is_core_line_def ustr_def strip_def is_space_def startswith_any_def startswith_def
  markers_def lower_def lower_cp_def

section \<open>Storage and extraction\<close>

lemma load_save [simp]: "load_knowledge (save_knowledge d fs) = d"
  by (simp add: load_knowledge_def save_knowledge_def)

lemma load_add_to_knowledge:
  "load_knowledge (add_to_knowledge now1 now2 ctx query response fs) =
     extract_and_store now1 now2 ctx query response (load_knowledge fs)"
  by (simp add: add_to_knowledge_def)

lemma conversations_extract_and_store:
  "conversations (extract_and_store now1 now2 ctx query response k) =
     conversations k @ [ShortForm now1 (take 500 query) (take 1000 response) ctx]"
  by (simp add: extract_and_store_def Let_def)

lemma core_instructions_extract_and_store:
  "core_instructions (extract_and_store now1 now2 ctx query response k) =
     (if extract_core_points response \<noteq> [] then
        AList.update (topic_of query)
          \<lparr>timestamp = now2, instructions = join [10] (extract_core_points response),
           usage_count = 1, source_conversation = int (length (conversations k))\<rparr>
          (core_instructions k)
      else core_instructions k)"
  by (simp add: extract_and_store_def Let_def)

lemma split_indented:
  "split_on 10 indented_response = [ustr ''  1. a'', ustr ''  2. b'', ustr ''  3. c'']"
  by (simp add: indented_response_def ustr_def)

lemma filter_indented:
  "filter is_core_line (split_on 10 indented_response) =
     [ustr ''  1. a'', ustr ''  2. b'', ustr ''  3. c'']"
  unfolding split_indented by (simp add: core_line_simps)

text \<open>
  Claim C1, as amended. When the response has at least three lines that match the marker
  rules, \<open>add_to_knowledge\<close> binds exactly one key of \<open>core_instructions\<close>, the first 50
  characters of the query followed by \<open>...\<close> iff the query is longer than 50 characters:
  the mapping afterwards is the mapping before with that key assigned (a new key makes it
  one entry longer, an existing key is overwritten in place). The entry's instructions are
  the first three matching lines in source order, each stripped of leading and trailing
  whitespace, joined by newlines; its usage count is 1; its source index is the position
  in \<open>conversations\<close> of the record appended by the same call.
\<close>

theorem add_to_knowledge_core_entry:
  assumes "length (filter is_core_line (split_on 10 response)) \<ge> 3"
  shows "core_instructions (load_knowledge (add_to_knowledge now1 now2 ctx query response fs)) =
           AList.update (take 50 query @ (if length query > 50 then ustr ''...'' else []))
             \<lparr>timestamp = now2,
              instructions =
                join [10] (map strip (take 3 (filter is_core_line (split_on 10 response)))),
              usage_count = 1,
              source_conversation = int (length (conversations (load_knowledge fs)))\<rparr>
             (core_instructions (load_knowledge fs))
         \<and> length (core_instructions
               (load_knowledge (add_to_knowledge now1 now2 ctx query response fs))) =
             (if take 50 query @ (if length query > 50 then ustr ''...'' else [])
                   \<in> fst ` set (core_instructions (load_knowledge fs))
              then length (core_instructions (load_knowledge fs))
              else length (core_instructions (load_knowledge fs)) + 1)
         \<and> conversations (load_knowledge (add_to_knowledge now1 now2 ctx query response fs)) !
               length (conversations (load_knowledge fs)) =
             ShortForm now1 (take 500 query) (take 1000 response) ctx"
proof -
  let ?m = "filter is_core_line (split_on 10 response)"
  from assms have ne: "?m \<noteq> []" by auto
  have pts: "extract_core_points response = map strip (take 3 ?m)"
    by (simp add: extract_core_points_eq take_map)
  from ne have "extract_core_points response \<noteq> []"
    by (simp add: pts)
  then show ?thesis
    by (simp add: load_add_to_knowledge core_instructions_extract_and_store
        conversations_extract_and_store pts topic_of_def length_update)
qed

theorem add_to_knowledge_core_entry_witness:
  "length (filter is_core_line (split_on 10 indented_response)) \<ge> 3 \<and>
   core_instructions (load_knowledge
      (add_to_knowledge (ustr ''t1'') (ustr ''t2'') [] (ustr ''q'') indented_response Missing)) =
     [(ustr ''q'',
       \<lparr>timestamp = ustr ''t2'',
        instructions = ustr ''1. a'' @ [10] @ ustr ''2. b'' @ [10] @ ustr ''3. c'',
        usage_count = 1, source_conversation = 0\<rparr>)]"
proof -
  have h: "length (filter is_core_line (split_on 10 indented_response)) \<ge> 3"
    unfolding filter_indented by simp
  show ?thesis
    using h add_to_knowledge_core_entry
      [OF h, of "ustr ''t1''" "ustr ''t2''" "[]" "ustr ''q''" Missing]
    unfolding filter_indented
    by (simp add: ustr_def strip_def is_space_def load_knowledge_def empty_document_def)
qed

text \<open>
  Claim C1 as stated fails: for the response of three numbered lines indented by two
  spaces, all three lines match, the stored instructions are the stripped lines, and the
  first three matching lines themselves, joined by newlines, are a different string.
\<close>

theorem instructions_untrimmed_counterexample:
  "length (filter is_core_line (split_on 10 indented_response)) \<ge> 3 \<and>
   map (\<lambda>item. instructions (snd item))
     (core_instructions (load_knowledge
        (add_to_knowledge [] [] [] (ustr ''q'') indented_response Missing))) =
     [ustr ''1. a'' @ [10] @ ustr ''2. b'' @ [10] @ ustr ''3. c''] \<and>
   join [10] (take 3 (filter is_core_line (split_on 10 indented_response))) =
     ustr ''  1. a'' @ [10] @ ustr ''  2. b'' @ [10] @ ustr ''  3. c'' \<and>
   ustr ''1. a'' @ [10] @ ustr ''2. b'' @ [10] @ ustr ''3. c'' \<noteq>
     ustr ''  1. a'' @ [10] @ ustr ''  2. b'' @ [10] @ ustr ''  3. c''"
proof -
  have pts: "extract_core_points indented_response = [ustr ''1. a'', ustr ''2. b'', ustr ''3. c'']"
    unfolding extract_core_points_eq filter_indented by (simp add: ustr_def strip_def is_space_def)
  show ?thesis
    unfolding load_add_to_knowledge core_instructions_extract_and_store pts filter_indented
    by (simp add: load_knowledge_def empty_document_def ustr_def)
qed

text \<open>
  Claim C5. Every call of \<open>add_to_knowledge\<close> appends exactly one short-form record to
  \<open>conversations\<close>; the stored query is the first 500 characters of the query and the
  stored response the first 1000 characters of the response (so 600 characters become
  500, and 1500 become 1000); when no line of the response matches the marker rules,
  \<open>core_instructions\<close> is left as it was.
\<close>

theorem add_to_knowledge_appends_conversation:
  "conversations (load_knowledge (add_to_knowledge now1 now2 ctx query response fs)) =
     conversations (load_knowledge fs) @
       [ShortForm now1 (take 500 query) (take 1000 response) ctx]
   \<and> length (take 500 query) = min (length query) 500
   \<and> length (take 1000 response) = min (length response) 1000
   \<and> (filter is_core_line (split_on 10 response) = [] \<longrightarrow>
        core_instructions (load_knowledge (add_to_knowledge now1 now2 ctx query response fs)) =
          core_instructions (load_knowledge fs))"
  by (simp add: load_add_to_knowledge conversations_extract_and_store
      core_instructions_extract_and_store extract_core_points_eq)

theorem add_to_knowledge_appends_conversation_witness:
  "filter is_core_line (split_on 10 (replicate 1500 98)) = [] \<and>
   core_instructions (load_knowledge
      (add_to_knowledge [] [] [] (replicate 600 97) (replicate 1500 98) btree_store)) =
     core_instructions (load_knowledge btree_store) \<and>
   conversations (load_knowledge
      (add_to_knowledge [] [] [] (replicate 600 97) (replicate 1500 98) btree_store)) =
     conversations (load_knowledge btree_store) @
       [ShortForm [] (replicate 500 97) (replicate 1000 98) []]"
proof -
  have sp: "split_on 10 (replicate n 98) = [replicate n 98]" for n
    by (induction n) auto
  have nc: "\<not> contains (replicate n 98) (c # cs)" if "c \<noteq> 98" for n c cs
    using that by (induction n) auto
  have st: "strip (replicate n 98) = replicate n 98" for n
    by (simp add: strip_def is_space_def)
  have np: "\<not> prefix (c # cs) (replicate n 98)" if "c \<noteq> 98" for n c cs
    using that by (cases n) auto
  have lw: "lower (replicate n 98) = replicate n 98" for n
    by (simp add: lower_def lower_cp_def)
  have h: "filter is_core_line (split_on 10 (replicate 1500 98)) = []"
    unfolding sp
    by (simp add: is_core_line_def st lw startswith_any_def startswith_def markers_def
        ustr_def nc np)
  show ?thesis
    using h add_to_knowledge_appends_conversation
      [of "[]" "[]" "[]" "replicate 600 97" "replicate 1500 98" btree_store]
    by simp
qed

text \<open>
  Claim C6. When the backing file is missing or cannot be parsed, \<open>load_knowledge\<close>
  returns the default document, whose four fields are all present and empty; its result
  is a document in every case, no failure reaches the caller.
\<close>

theorem load_knowledge_default:
  "load_knowledge Missing = empty_document \<and>
   load_knowledge Unparseable = empty_document \<and>
   summary empty_document = [] \<and> core_instructions empty_document = [] \<and>
   api_interactions empty_document = [] \<and> conversations empty_document = []"
  by (simp add: load_knowledge_def empty_document_def)

section \<open>Search\<close>

lemma search_loop_filter:
  "search_loop ql items acc =
     acc @ map make_result
             (filter (\<lambda>item. contains (lower (fst item)) ql \<or>
                             contains (lower (instructions (snd item))) ql) items)"
  by (induction ql items acc rule: search_loop.induct) auto

lemma search_knowledge_filter:
  "search_knowledge fs query =
     map make_result
       (filter (\<lambda>item. ci_substring query (fst item) \<or>
                       ci_substring query (instructions (snd item)))
          (core_instructions (load_knowledge fs)))"
  by (simp add: search_knowledge_def search_loop_filter ci_substring_contains Let_def)

lemma lower_Btree: "lower (ustr ''B-tree'') = ustr ''b-tree''"
  by (simp add: lower_def ustr_def lower_cp_def)

lemma lower_btree: "lower (ustr ''b-tree'') = ustr ''b-tree''"
  by (simp add: lower_def ustr_def lower_cp_def)

text \<open>
  Claim C3. For every store and query, \<open>search_knowledge\<close> returns exactly the entries
  whose topic or instructions contain the query as a case-insensitive substring, all of
  them, in the order of the mapping; for a missing or unparseable file and for the empty
  document the result is the empty list; an entry whose instructions contain \<open>B-tree\<close>
  is among the results of the query \<open>b-tree\<close>.
\<close>

theorem search_knowledge_exact:
  "search_knowledge fs query =
     map make_result
       (filter (\<lambda>item. ci_substring query (fst item) \<or>
                       ci_substring query (instructions (snd item)))
          (core_instructions (load_knowledge fs)))
   \<and> search_knowledge Missing query = []
   \<and> search_knowledge Unparseable query = []
   \<and> search_knowledge (Holds empty_document) query = []
   \<and> (\<forall>item \<in> set (core_instructions (load_knowledge fs)).
        sublist (ustr ''B-tree'') (instructions (snd item)) \<longrightarrow>
        make_result item \<in> set (search_knowledge fs (ustr ''b-tree'')))"
proof -
  have bt: "make_result item \<in> set (search_knowledge fs (ustr ''b-tree''))"
    if "item \<in> set (core_instructions (load_knowledge fs))"
      and "sublist (ustr ''B-tree'') (instructions (snd item))" for item
  proof -
    from that(2) have "sublist (ustr ''b-tree'') (lower (instructions (snd item)))"
      using sublist_lower lower_Btree by metis
    then have "ci_substring (ustr ''b-tree'') (instructions (snd item))"
      by (simp add: ci_substring_contains contains_iff_sublist lower_btree)
    with that(1) show ?thesis by (simp add: search_knowledge_filter)
  qed
  show ?thesis
    using bt by (simp add: search_knowledge_filter load_knowledge_def empty_document_def)
qed

theorem search_knowledge_exact_witness:
  "(ustr ''database indexing'', btree_entry) \<in> set (core_instructions (load_knowledge btree_store))
   \<and> sublist (ustr ''B-tree'') (instructions (snd (ustr ''database indexing'', btree_entry)))
   \<and> make_result (ustr ''database indexing'', btree_entry)
        \<in> set (search_knowledge btree_store (ustr ''b-tree''))"
proof -
  have m: "(ustr ''database indexing'', btree_entry)
             \<in> set (core_instructions (load_knowledge btree_store))"
    by (simp add: btree_store_def load_knowledge_def)
  have s: "sublist (ustr ''B-tree'') (instructions (snd (ustr ''database indexing'', btree_entry)))"
    unfolding contains_iff_sublist [symmetric]
    by (simp add: btree_entry_def ustr_def)
  from search_knowledge_exact [of btree_store "ustr ''b-tree''"] m s
  show ?thesis by blast
qed

text \<open>
  Claim C10. For the empty query, \<open>search_knowledge\<close> returns every stored entry of
  \<open>core_instructions\<close>, in order.
\<close>

theorem search_knowledge_empty_query:
  "search_knowledge fs [] = map make_result (core_instructions (load_knowledge fs))"
  by (simp add: search_knowledge_def search_loop_filter lower_def Let_def)

section \<open>The rolling context\<close>

lemma content_of_ok_body [simp]: "content_of (ok_body text) = Inr (JStr text)"
  by (simp add: content_of_def ok_body_def ustr_def)

lemma api_query_answers [simp]: "api_query (answers text p) = Inr (JStr text)"
  by (simp add: api_query_def answers_def)

lemma handle_user_query_ok:
  assumes "deepseek st \<noteq> None" and "api_query (post (build_prompt (build_context st fs query) query)) = Inr (JStr r)"
  shows "handle_user_query py_str now1 now2 post query (st, fs) =
     (let ctx' = (if length (current_context st) > 6 then last_n 6 (current_context st)
                  else current_context st) @
                 [ustr ''User: '' @ take 100 query @ ustr ''...'',
                  ustr ''Assistant: '' @ take 200 r @ ustr ''...'']
      in (Response (JStr r),
          st\<lparr>conversation_history := conversation_history st @
                [\<lparr>role = ustr ''user'', content = JStr query\<rparr>,
                 \<lparr>role = ustr ''assistant'', content = JStr r\<rparr>],
             current_context := ctx'\<rparr>,
          add_to_knowledge now1 now2 ctx' query r fs))"
  using assms by (simp add: handle_user_query_def Let_def assistant_line_def)

lemma query_answers_context:
  assumes "deepseek (fst w) \<noteq> None"
  shows "current_context (fst (apply_operation py_str (Query now1 now2 (answers r) q) w)) =
     (if length (current_context (fst w)) > 6 then last_n 6 (current_context (fst w))
      else current_context (fst w)) @
     [ustr ''User: '' @ take 100 q @ ustr ''...'', ustr ''Assistant: '' @ take 200 r @ ustr ''...'']"
    and "deepseek (fst (apply_operation py_str (Query now1 now2 (answers r) q) w)) = deepseek (fst w)"
  using assms by (cases w; simp add: handle_user_query_ok Let_def)+

text \<open>
  Claim C2 fails on the code. The trim \<open>if len(ctx) > 6\<close> runs before the two new
  entries are appended: after four answered queries from an empty context the rolling
  context holds eight entries, those of four exchanges, whatever the queries and answers
  are.
\<close>

theorem context_holds_eight_after_four_exchanges:
  "current_context (fst (run py_str
      [Query t1 t1' (answers r1) q1, Query t2 t2' (answers r2) q2,
       Query t3 t3' (answers r3) q3, Query t4 t4' (answers r4) q4]
      (initial_session (Some key), fs))) =
     [ustr ''User: '' @ take 100 q1 @ ustr ''...'', ustr ''Assistant: '' @ take 200 r1 @ ustr ''...'',
      ustr ''User: '' @ take 100 q2 @ ustr ''...'', ustr ''Assistant: '' @ take 200 r2 @ ustr ''...'',
      ustr ''User: '' @ take 100 q3 @ ustr ''...'', ustr ''Assistant: '' @ take 200 r3 @ ustr ''...'',
      ustr ''User: '' @ take 100 q4 @ ustr ''...'', ustr ''Assistant: '' @ take 200 r4 @ ustr ''...'']
   \<and> length (current_context (fst (run py_str
      [Query t1 t1' (answers r1) q1, Query t2 t2' (answers r2) q2,
       Query t3 t3' (answers r3) q3, Query t4 t4' (answers r4) q4]
      (initial_session (Some key), fs)))) = 8"
  by (simp add: query_answers_context initial_session_def del: apply_operation.simps)

text \<open>The same for any number of answered queries: two entries each, up to eight.\<close>

lemma exchanges_context_length:
  assumes "deepseek (fst w) \<noteq> None" and "length (current_context (fst w)) \<in> {0, 2, 4, 6, 8}"
  shows "length (current_context (fst (run py_str (map exchange qrs) w))) =
           min (length (current_context (fst w)) + 2 * length qrs) 8"
  using assms
proof (induction qrs arbitrary: w)
  case Nil
  then show ?case by auto
next
  case (Cons qr qrs)
  let ?w = "apply_operation py_str (exchange qr) w"
  have d: "deepseek (fst ?w) \<noteq> None"
    using Cons.prems(1) by (simp add: exchange_def query_answers_context del: apply_operation.simps)
  have l: "length (current_context (fst ?w)) =
             (if length (current_context (fst w)) > 6 then 8
              else length (current_context (fst w)) + 2)"
    using Cons.prems
    by (auto simp add: exchange_def query_answers_context last_n_def simp del: apply_operation.simps)
  from l Cons.prems(2) have m: "length (current_context (fst ?w)) \<in> {0, 2, 4, 6, 8}"
    by auto
  from Cons.IH [OF d m] l Cons.prems(2) show ?case
    by auto
qed

section \<open>Prompt assembly\<close>

lemma join_nonempty: "xs \<noteq> [] \<Longrightarrow> \<forall>e \<in> set xs. e \<noteq> [] \<Longrightarrow> join sep xs \<noteq> []"
  by (induction sep xs rule: join.induct) auto

lemma last_n_nonempty: "xs \<noteq> [] \<Longrightarrow> 0 < n \<Longrightarrow> last_n n xs \<noteq> []"
proof -
  assume "xs \<noteq> []" and "0 < n"
  then have "length xs - n < length xs" by (cases xs) auto
  then show ?thesis by (simp add: last_n_def)
qed

lemma set_last_n: "set (last_n n xs) \<subseteq> set xs"
  by (simp add: last_n_def set_drop_subset)

lemma format_result_nonempty: "format_result r \<noteq> []"
  by (simp add: format_result_def ustr_def)

text \<open>
  Claim C4. The client is called on the prompt built from the context string and the
  query. When the rolling context is non-empty (its entries are non-empty strings, as
  those that \<open>handle_user_query\<close> appends are), the prompt is made of its last three
  entries and the query, whatever the store holds: the search plays no part. When it is
  empty and the search finds results, the prompt is made of the first two results, each
  as topic, colon, first 200 characters of the instructions, and the query. Otherwise the
  prompt is made of the query alone.
\<close>

theorem prompt_assembly:
  "handle_user_query py_str now1 now2 post query (st, fs) =
     handle_user_query py_str now1 now2
       (\<lambda>p. post (build_prompt (build_context st fs query) query)) query (st, fs)
   \<and> (current_context st \<noteq> [] \<and> (\<forall>e \<in> set (current_context st). e \<noteq> []) \<longrightarrow>
        (\<forall>fs'. build_prompt (build_context st fs' query) query =
           ustr ''Context from previous knowledge:'' @ [10] @
           join [10] (last_n 3 (current_context st)) @ [10, 10] @
           ustr ''Current query: '' @ query @ [10, 10] @
           ustr ''Please provide a comprehensive response as a senior developer.''))
   \<and> (current_context st = [] \<and> search_knowledge fs query \<noteq> [] \<longrightarrow>
        build_prompt (build_context st fs query) query =
           ustr ''Context from previous knowledge:'' @ [10] @
           join [10] (map (\<lambda>r. result_topic r @ ustr '': '' @
                                take 200 (instructions (result_content r)))
                        (take 2 (search_knowledge fs query))) @ [10, 10] @
           ustr ''Current query: '' @ query @ [10, 10] @
           ustr ''Please provide a comprehensive response as a senior developer.'')
   \<and> (current_context st = [] \<and> search_knowledge fs query = [] \<longrightarrow>
        build_prompt (build_context st fs query) query =
           ustr ''Query: '' @ query @ [10, 10] @
           ustr ''Please provide a comprehensive response as a senior developer.'')"
proof -
  have call: "handle_user_query py_str now1 now2 post query (st, fs) =
     handle_user_query py_str now1 now2
       (\<lambda>p. post (build_prompt (build_context st fs query) query)) query (st, fs)"
    by (simp add: handle_user_query_def Let_def)
  have ctx: "build_prompt (build_context st fs' query) query =
           ustr ''Context from previous knowledge:'' @ [10] @
           join [10] (last_n 3 (current_context st)) @ [10, 10] @
           ustr ''Current query: '' @ query @ [10, 10] @
           ustr ''Please provide a comprehensive response as a senior developer.''"
    if ne: "current_context st \<noteq> []" and el: "\<forall>e \<in> set (current_context st). e \<noteq> []" for fs'
  proof -
    from el set_last_n [of 3 "current_context st"]
    have "\<forall>e \<in> set (last_n 3 (current_context st)). e \<noteq> []" by blast
    with last_n_nonempty [OF ne, of 3]
    have "join [10] (last_n 3 (current_context st)) \<noteq> []"
      by (intro join_nonempty) simp_all
    with ne show ?thesis
      by (simp add: build_context_def build_prompt_def)
  qed
  have res: "build_prompt (build_context st fs query) query =
           ustr ''Context from previous knowledge:'' @ [10] @
           join [10] (map (\<lambda>r. result_topic r @ ustr '': '' @
                                take 200 (instructions (result_content r)))
                        (take 2 (search_knowledge fs query))) @ [10, 10] @
           ustr ''Current query: '' @ query @ [10, 10] @
           ustr ''Please provide a comprehensive response as a senior developer.''"
    if e: "current_context st = []" and r: "search_knowledge fs query \<noteq> []"
  proof -
    from r have "map format_result (take 2 (search_knowledge fs query)) \<noteq> []"
      by simp
    then have "join [10] (map format_result (take 2 (search_knowledge fs query))) \<noteq> []"
      by (rule join_nonempty) (auto simp: format_result_nonempty)
    moreover have "format_result = (\<lambda>r. result_topic r @ ustr '': '' @
                                take 200 (instructions (result_content r)))"
      by (rule ext) (simp add: format_result_def)
    ultimately show ?thesis
      using e r by (simp add: build_context_def build_prompt_def Let_def)
  qed
  have none: "build_prompt (build_context st fs query) query =
           ustr ''Query: '' @ query @ [10, 10] @
           ustr ''Please provide a comprehensive response as a senior developer.''"
    if "current_context st = []" and "search_knowledge fs query = []"
    using that by (simp add: build_context_def build_prompt_def)
  from call ctx res none show ?thesis by blast
qed

theorem prompt_assembly_witness:
  "build_prompt (build_context
      \<lparr>conversation_history = [], current_context = greeting_context, deepseek = Some (ustr ''key'')\<rparr>
      Unparseable (ustr ''b-tree'')) (ustr ''b-tree'') =
     ustr ''Context from previous knowledge:'' @ [10] @
     ustr ''User: hi...'' @ [10] @ ustr ''Assistant: hello...'' @ [10, 10] @
     ustr ''Current query: b-tree'' @ [10, 10] @
     ustr ''Please provide a comprehensive response as a senior developer.''
   \<and> build_prompt (build_context (initial_session (Some (ustr ''key''))) btree_store
        (ustr ''b-tree'')) (ustr ''b-tree'') =
     ustr ''Context from previous knowledge:'' @ [10] @
     ustr ''database indexing: Use a B-tree index'' @ [10, 10] @
     ustr ''Current query: b-tree'' @ [10, 10] @
     ustr ''Please provide a comprehensive response as a senior developer.''
   \<and> build_prompt (build_context (initial_session (Some (ustr ''key''))) Missing
        (ustr ''b-tree'')) (ustr ''b-tree'') =
     ustr ''Query: b-tree'' @ [10, 10] @
     ustr ''Please provide a comprehensive response as a senior developer.''"
proof -
  let ?chat = "\<lparr>conversation_history = [], current_context = greeting_context,
              deepseek = Some (ustr ''key'')\<rparr>"
  let ?init = "initial_session (Some (ustr ''key''))"
  have a: "current_context ?chat \<noteq> [] \<and> (\<forall>e \<in> set (current_context ?chat). e \<noteq> [])"
    by (simp add: greeting_context_def ustr_def)
  have s: "search_knowledge btree_store (ustr ''b-tree'') =
             [make_result (ustr ''database indexing'', btree_entry)]"
    by (simp add: search_knowledge_def btree_store_def load_knowledge_def Let_def
        btree_entry_def lower_def lower_cp_def ustr_def)
  have b: "current_context ?init = [] \<and> search_knowledge btree_store (ustr ''b-tree'') \<noteq> []"
    by (simp add: s initial_session_def)
  have c: "current_context ?init = [] \<and> search_knowledge Missing (ustr ''b-tree'') = []"
    by (simp add: initial_session_def search_knowledge_def load_knowledge_def empty_document_def)
  have 1: "build_prompt (build_context ?chat Unparseable (ustr ''b-tree'')) (ustr ''b-tree'') =
     ustr ''Context from previous knowledge:'' @ [10] @
     join [10] (last_n 3 (current_context ?chat)) @ [10, 10] @
     ustr ''Current query: '' @ ustr ''b-tree'' @ [10, 10] @
     ustr ''Please provide a comprehensive response as a senior developer.''"
    using a prompt_assembly [of undefined "[]" "[]" "\<lambda>_. Raises KeyError" "ustr ''b-tree''" ?chat Missing]
    by blast
  have 2: "build_prompt (build_context ?init btree_store (ustr ''b-tree'')) (ustr ''b-tree'') =
           ustr ''Context from previous knowledge:'' @ [10] @
           join [10] (map (\<lambda>r. result_topic r @ ustr '': '' @
                                take 200 (instructions (result_content r)))
                        (take 2 (search_knowledge btree_store (ustr ''b-tree'')))) @ [10, 10] @
           ustr ''Current query: '' @ ustr ''b-tree'' @ [10, 10] @
           ustr ''Please provide a comprehensive response as a senior developer.''"
    using b prompt_assembly [of undefined "[]" "[]" "\<lambda>_. Raises KeyError" "ustr ''b-tree''" ?init btree_store]
    by blast
  have 3: "build_prompt (build_context ?init Missing (ustr ''b-tree'')) (ustr ''b-tree'') =
           ustr ''Query: '' @ ustr ''b-tree'' @ [10, 10] @
           ustr ''Please provide a comprehensive response as a senior developer.''"
    using c prompt_assembly [of undefined "[]" "[]" "\<lambda>_. Raises KeyError" "ustr ''b-tree''" ?init Missing]
    by blast
  show ?thesis
    unfolding 1 2 3 s
    by (simp add: greeting_context_def last_n_def make_result_def btree_entry_def ustr_def)
qed

section \<open>Growth of the store\<close>

lemma store_grows_refl [simp]: "store_grows fs fs"
  by (simp add: store_grows_def)

lemma store_grows_trans: "store_grows a b \<Longrightarrow> store_grows b c \<Longrightarrow> store_grows a c"
  unfolding store_grows_def by (meson prefix_order.trans subset_trans)

lemma length_two:
  assumes "length xs = 2"
  obtains a b where "xs = [a, b]"
proof (cases xs)
  case Nil
  with assms show ?thesis by simp
next
  case (Cons a ys)
  with assms have "length ys = 1" by simp
  then obtain b where "ys = [b]" by (cases ys) auto
  with Cons that show ?thesis by simp
qed

lemma set_update_subset: "set (AList.update k v al) \<subseteq> insert (k, v) (set al)"
  by (induction al) auto

lemma usage_count_update:
  assumes "\<forall>e \<in> snd ` set al. usage_count e = 1" and "usage_count v = 1"
  shows "\<forall>e \<in> snd ` set (AList.update k v al). usage_count e = 1"
  using assms set_update_subset [of k v al] by fastforce

lemma store_grows_add_to_knowledge:
  "store_grows fs (add_to_knowledge now1 now2 ctx query response fs)"
proof -
  let ?k = "load_knowledge fs"
  let ?k' = "extract_and_store now1 now2 ctx query response ?k"
  have 1: "prefix (conversations ?k) (conversations ?k')"
    by (simp add: conversations_extract_and_store)
  have 2: "fst ` set (core_instructions ?k) \<subseteq> fst ` set (core_instructions ?k')"
    by (simp add: core_instructions_extract_and_store dom_update subset_insertI)
  have 3: "\<forall>e \<in> snd ` set (core_instructions ?k'). usage_count e = 1"
    if "\<forall>e \<in> snd ` set (core_instructions ?k). usage_count e = 1"
  proof (cases "extract_core_points response = []")
    case True
    with that show ?thesis by (simp add: core_instructions_extract_and_store)
  next
    case False
    have "usage_count \<lparr>timestamp = now2,
            instructions = join [10] (extract_core_points response), usage_count = 1,
            source_conversation = int (length (conversations (load_knowledge fs)))\<rparr> = 1"
      by simp
    from usage_count_update [OF that this] False show ?thesis
      unfolding core_instructions_extract_and_store by simp
  qed
  from 1 2 3 show ?thesis
    unfolding store_grows_def load_add_to_knowledge by blast
qed

lemma store_grows_save_conversation: "store_grows fs (save_conversation now st fs)"
  by (simp add: store_grows_def save_conversation_def Let_def)

lemma store_grows_setup_directories: "store_grows fs (setup_directories fs)"
  by (cases fs) (simp_all add: store_grows_def setup_directories_def load_knowledge_def
      save_knowledge_def)

lemma handle_user_query_store:
  "snd (snd (handle_user_query py_str now1 now2 post query (st, fs))) = fs \<or>
   (\<exists>ctx r. snd (snd (handle_user_query py_str now1 now2 post query (st, fs))) =
      add_to_knowledge now1 now2 ctx query r fs)"
  by (auto simp: handle_user_query_def Let_def split: sum.splits json.splits)

lemma store_grows_apply_operation:
  "store_grows (snd w) (snd (apply_operation py_str op w))"
proof (cases op)
  case (Query now1 now2 post query)
  then show ?thesis
    using handle_user_query_store [of py_str now1 now2 post query "fst w" "snd w"]
    by (auto simp: store_grows_add_to_knowledge)
qed (simp_all add: store_grows_save_conversation store_grows_setup_directories)

lemma store_grows_run: "store_grows (snd w) (snd (run py_str ops w))"
proof (induction ops arbitrary: w)
  case Nil
  show ?case by simp
next
  case (Cons op ops)
  from store_grows_apply_operation [of w py_str op] Cons [of "apply_operation py_str op w"]
  show ?case by (auto intro: store_grows_trans simp del: apply_operation.simps)
qed

text \<open>
  Claim C8. Over every sequence of operations of a run, from every session and store:
  the conversations before are a prefix of the conversations after (nothing is edited or
  deleted), every key of \<open>core_instructions\<close> is still a key, and if every entry had usage
  count 1 then every entry has usage count 1; from an absent file, every entry has usage
  count 1.
\<close>

theorem knowledge_only_grows:
  "prefix (conversations (load_knowledge fs))
          (conversations (load_knowledge (snd (run py_str ops (st, fs)))))
   \<and> fst ` set (core_instructions (load_knowledge fs))
       \<subseteq> fst ` set (core_instructions (load_knowledge (snd (run py_str ops (st, fs)))))
   \<and> ((\<forall>e \<in> snd ` set (core_instructions (load_knowledge fs)). usage_count e = 1) \<longrightarrow>
        (\<forall>e \<in> snd ` set (core_instructions (load_knowledge (snd (run py_str ops (st, fs))))).
           usage_count e = 1))
   \<and> (\<forall>e \<in> snd ` set (core_instructions (load_knowledge (snd (run py_str ops (st, Missing))))).
        usage_count e = 1)"
proof -
  have a: "store_grows fs (snd (run py_str ops (st, fs)))" for fs
    using store_grows_run [of "(st, fs)" py_str ops] by simp
  have "\<forall>e \<in> snd ` set (core_instructions (load_knowledge Missing)). usage_count e = 1"
    by (simp add: load_knowledge_def empty_document_def)
  with a [of Missing]
  have "\<forall>e \<in> snd ` set (core_instructions (load_knowledge (snd (run py_str ops (st, Missing))))).
          usage_count e = 1"
    unfolding store_grows_def by blast
  with a [of fs] show ?thesis
    unfolding store_grows_def by blast
qed

theorem knowledge_only_grows_witness:
  "map (\<lambda>item. usage_count (snd item)) (core_instructions (load_knowledge btree_store)) = [1]
   \<and> map (\<lambda>item. usage_count (snd item)) (core_instructions (load_knowledge
         (snd (run (\<lambda>v. []) session_ops (initial_session (Some (ustr ''key'')), btree_store))))) =
       [1, 1]
   \<and> prefix (conversations (load_knowledge btree_store))
        (conversations (load_knowledge
           (snd (run (\<lambda>v. []) session_ops (initial_session (Some (ustr ''key'')), btree_store)))))
   \<and> map fst (core_instructions (load_knowledge
         (snd (run (\<lambda>v. []) session_ops (initial_session (Some (ustr ''key'')), btree_store))))) =
       [ustr ''database indexing'', ustr ''q'']
   \<and> length (conversations (load_knowledge
         (snd (run (\<lambda>v. []) session_ops (initial_session (Some (ustr ''key'')), btree_store))))) = 3"
proof -
  let ?after = "load_knowledge
     (snd (run (\<lambda>v. []) session_ops (initial_session (Some (ustr ''key'')), btree_store)))"
  have h: "\<forall>e \<in> snd ` set (core_instructions (load_knowledge btree_store)). usage_count e = 1"
    by (simp add: btree_store_def load_knowledge_def btree_entry_def)
  have h1: "map (\<lambda>item. usage_count (snd item)) (core_instructions (load_knowledge btree_store)) = [1]"
    by (simp add: btree_store_def load_knowledge_def btree_entry_def)
  have pts: "extract_core_points indented_response \<noteq> []"
    unfolding extract_core_points_eq filter_indented by simp
  have r: "?after =
           (let k = extract_and_store (ustr ''t1'') (ustr ''t2'')
                      [ustr ''User: '' @ take 100 (ustr ''q'') @ ustr ''...'',
                       ustr ''Assistant: '' @ take 200 indented_response @ ustr ''...'']
                      (ustr ''q'') indented_response (load_knowledge btree_store)
            in k\<lparr>conversations := conversations k @
                 [BatchForm (ustr ''t3'')
                    [\<lparr>role = ustr ''user'', content = JStr (ustr ''q'')\<rparr>,
                     \<lparr>role = ustr ''assistant'', content = JStr indented_response\<rparr>]
                    [ustr ''User: '' @ take 100 (ustr ''q'') @ ustr ''...'',
                     ustr ''Assistant: '' @ take 200 indented_response @ ustr ''...'']]\<rparr>)"
    by (simp add: session_ops_def initial_session_def handle_user_query_ok
        setup_directories_def btree_store_def save_conversation_def Let_def
        load_add_to_knowledge)
  have k: "map fst (core_instructions ?after) = [ustr ''database indexing'', ustr ''q'']"
    unfolding r using pts
    by (simp add: Let_def core_instructions_extract_and_store update_keys topic_of_def
        btree_store_def load_knowledge_def) (simp add: ustr_def)
  have n: "length (conversations ?after) = 3"
    unfolding r
    by (simp add: Let_def conversations_extract_and_store btree_store_def load_knowledge_def)
  note grows = knowledge_only_grows
    [of btree_store "\<lambda>v. []" session_ops "initial_session (Some (ustr ''key''))"]
  from grows have imp:
    "(\<forall>e \<in> snd ` set (core_instructions (load_knowledge btree_store)). usage_count e = 1) \<longrightarrow>
     (\<forall>e \<in> snd ` set (core_instructions ?after). usage_count e = 1)"
    by (elim conjE)
  from imp h have all1: "\<forall>e \<in> snd ` set (core_instructions ?after). usage_count e = 1"
    by (rule mp)
  from k have "length (map fst (core_instructions ?after)) = 2"
    by simp
  then have "length (core_instructions ?after) = 2"
    by simp
  then obtain a b where ab: "core_instructions ?after = [a, b]"
    by (rule length_two)
  from all1 have u: "map (\<lambda>item. usage_count (snd item)) (core_instructions ?after) = [1, 1]"
    unfolding ab by simp
  from grows have p: "prefix (conversations (load_knowledge btree_store)) (conversations ?after)"
    by (elim conjE)
  from h1 u p k n show ?thesis
    by (intro conjI)
qed

section \<open>Failures of the completion call\<close>

text \<open>
  What \<open>DeepSeekAPI.query\<close> turns into text: a \<open>RequestException\<close>, a
  \<open>JSONDecodeError\<close> and a \<open>KeyError\<close>. The pipeline then records the text like an
  answer.
\<close>

lemma api_query_error_text:
  "api_query (Raises (RequestException msg)) = Inr (JStr (ustr ''API Error: '' @ msg))"
  "api_query (Raises JSONDecodeError) = Inr (JStr (ustr ''Error: Invalid API response format''))"
  "api_query (Raises KeyError) = Inr (JStr (ustr ''Error: Invalid API response format''))"
  "content_of body = Inl KeyError \<Longrightarrow>
     api_query (Body body) = Inr (JStr (ustr ''Error: Invalid API response format''))"
  by (simp_all add: api_query_def)

lemma error_text_is_recorded:
  assumes "deepseek st \<noteq> None"
    and "api_query (post (build_prompt (build_context st fs query) query)) = Inr (JStr err)"
  shows "fst (handle_user_query py_str now1 now2 post query (st, fs)) = Response (JStr err)"
    and "conversation_history (fst (snd (handle_user_query py_str now1 now2 post query (st, fs)))) =
           conversation_history st @
             [\<lparr>role = ustr ''user'', content = JStr query\<rparr>,
              \<lparr>role = ustr ''assistant'', content = JStr err\<rparr>]"
    and "last (current_context (fst (snd (handle_user_query py_str now1 now2 post query (st, fs))))) =
           ustr ''Assistant: '' @ take 200 err @ ustr ''...''"
    and "last (conversations (load_knowledge
            (snd (snd (handle_user_query py_str now1 now2 post query (st, fs)))))) =
           ShortForm now1 (take 500 query) (take 1000 err)
             (current_context (fst (snd (handle_user_query py_str now1 now2 post query (st, fs)))))"
  using assms
  by (simp_all add: handle_user_query_ok Let_def load_add_to_knowledge
      conversations_extract_and_store)

text \<open>
  Claim C9 fails on the code for a malformed body that raises another exception: for the
  body \<open>{"choices": []}\<close> the subscript \<open>[0]\<close> raises \<open>IndexError\<close>, which no
  \<open>except\<close> clause of \<open>DeepSeekAPI.query\<close> catches; the client returns no text, and
  \<open>handle_user_query\<close> leaves history, context and store as they were.
\<close>

theorem empty_choices_escapes_client:
  "api_query (Body (JObj [(ustr ''choices'', JArr [])])) = Inl IndexError \<and>
   handle_user_query py_str now1 now2 (\<lambda>prompt. Body (JObj [(ustr ''choices'', JArr [])])) query
       (st\<lparr>deepseek := Some key\<rparr>, fs) =
     (ApiError IndexError, st\<lparr>deepseek := Some key\<rparr>, fs)"
  by (simp add: api_query_def content_of_def handle_user_query_def Let_def)

end
